theory Spec2Isabelle
  imports Complex_Main "HOL-Library.Char_ord" "HOL-Library.List_Lexorder"
begin

section \<open>Frequency tables with formatted percentages (plots/plot_counts.py)\<close>

text \<open>
  The development embeds the two pure functions of \<^verbatim>\<open>plots/plot_counts.py\<close> that compute
  a frequency table: \<^verbatim>\<open>counts_to_percentages\<close> (the percentage formatter) and
  \<^verbatim>\<open>calc_counts_and_percentages\<close> (the frequency table builder).

  Numbers. The source computes on 64-bit floats. Here a finite number is an exact
  rational, so that sums and quotients are exact; the three special results that the
  division of a pandas Series by zero produces (\<open>inf\<close>, \<open>-inf\<close>, \<open>nan\<close>) are kept as
  values of their own, because the source reaches them when the total is zero.
\<close>

subsection \<open>Numbers and their comparison\<close>

datatype fval = Fin rat | PosInf | NegInf | NaN

text \<open>\<^verbatim>\<open>x / x_sum\<close> for one element: true division as numpy performs it, without raising.\<close>

definition truediv :: "rat \<Rightarrow> rat \<Rightarrow> fval" where
  "truediv c s =
     (if s = 0 then (if c = 0 then NaN else if 0 < c then PosInf else NegInf)
      else Fin (c / s))"

text \<open>\<^verbatim>\<open>... * 100\<close> for one element.\<close>

fun times100 :: "fval \<Rightarrow> fval" where
  "times100 (Fin q) = Fin (q * 100)"
| "times100 PosInf = PosInf"
| "times100 NegInf = NegInf"
| "times100 NaN = NaN"

text \<open>\<^verbatim>\<open>i == q\<close> and \<^verbatim>\<open>i < q\<close>, \<^verbatim>\<open>q < i\<close> against a finite constant: every comparison with
  \<open>nan\<close> is false.\<close>

fun eq_const :: "fval \<Rightarrow> rat \<Rightarrow> bool" where
  "eq_const (Fin p) q = (p = q)"
| "eq_const _ q = False"

fun lt_const :: "fval \<Rightarrow> rat \<Rightarrow> bool" where
  "lt_const (Fin p) q = (p < q)"
| "lt_const NegInf q = True"
| "lt_const _ q = False"

fun gt_const :: "fval \<Rightarrow> rat \<Rightarrow> bool" where
  "gt_const (Fin p) q = (q < p)"
| "gt_const PosInf q = True"
| "gt_const _ q = False"

subsection \<open>The format specification \<^verbatim>\<open>.1f\<close>\<close>

definition digit_char :: "nat \<Rightarrow> char" where
  "digit_char d = ''0123456789'' ! (d mod 10)"

fun string_of_nat :: "nat \<Rightarrow> string" where
  "string_of_nat n =
     (if n < 10 then [digit_char n] else string_of_nat (n div 10) @ [digit_char (n mod 10)])"

declare string_of_nat.simps [simp del]

text \<open>Rounding to the nearest integer, a tie going to the even neighbour.\<close>

definition round_half_even :: "rat \<Rightarrow> int" where
  "round_half_even q =
     (let f = \<lfloor>q\<rfloor>; d = q - of_int f
      in if d < 1 / 2 then f
         else if 1 / 2 < d then f + 1
         else if even f then f else f + 1)"

text \<open>\<^verbatim>\<open>f"{i:.1f}"\<close>: the number of tenths nearest to \<open>i\<close>, written with one decimal.\<close>

definition format_1f_rat :: "rat \<Rightarrow> string" where
  "format_1f_rat p =
     (let t = round_half_even (p * 10); a = nat \<bar>t\<bar>
      in (if p < 0 then ''-'' else '''') @ string_of_nat (a div 10) @ ''.'' @ [digit_char (a mod 10)])"

fun format_1f :: "fval \<Rightarrow> string" where
  "format_1f (Fin p) = format_1f_rat p"
| "format_1f PosInf = ''inf''"
| "format_1f NegInf = ''-inf''"
| "format_1f NaN = ''nan''"

subsection \<open>Series\<close>

text \<open>
  A pandas Series is an ordered sequence of (label, value) entries: the index and the
  values, side by side. The name of a Series only becomes a column header when the
  builder assembles the table, so the builder passes the two names at that point and
  the Series carries none.
\<close>

type_synonym ('k, 'v) series = "('k \<times> 'v) list"

definition index :: "('k, 'v) series \<Rightarrow> 'k list" where
  "index x = map fst x"

definition values_of :: "('k, 'v) series \<Rightarrow> 'v list" where
  "values_of x = map snd x"

text \<open>\<^verbatim>\<open>x.sum()\<close>; the sum of an empty Series is 0.\<close>

definition series_sum :: "('k, rat) series \<Rightarrow> rat" where
  "series_sum x = sum_list (values_of x)"

text \<open>\<^verbatim>\<open>.replace(old, new)\<close> on a Series of strings: whole values equal to \<open>old\<close>.\<close>

definition series_replace :: "string \<Rightarrow> string \<Rightarrow> ('k, string) series \<Rightarrow> ('k, string) series" where
  "series_replace old new x = map (\<lambda>(k, v). (k, if v = old then new else v)) x"

subsection \<open>The percentage formatter: \<^verbatim>\<open>counts_to_percentages\<close>\<close>

text \<open>The values \<^verbatim>\<open>x / x_sum * 100\<close> that the comprehension iterates over.\<close>

definition raw_percentages :: "('k, rat) series \<Rightarrow> fval list" where
  "raw_percentages x =
     (let x_sum = series_sum x
      in map (\<lambda>c. times100 (truediv c x_sum)) (values_of x))"

text \<open>The conditional expression of the comprehension, for one value \<open>i\<close>.\<close>

definition format_percentage :: "fval \<Rightarrow> string" where
  "format_percentage i =
     (if eq_const i 0 then ''0%''
      else if lt_const i (1 / 10) then ''<0.1%''
      else if gt_const i (999 / 10) \<and> lt_const i 100 then ''>99.9%''
      else format_1f i @ ''%'')"

definition counts_to_percentages :: "('k, rat) series \<Rightarrow> ('k, string) series" where
  "counts_to_percentages x =
     series_replace ''0.0%'' ''<0.1%''
       (zip (index x) (map format_percentage (raw_percentages x)))"


subsection \<open>Tables\<close>

text \<open>
  A DataFrame is a mapping from column names to columns of equal length. Its columns
  are typed: a label column holds category labels of one linearly ordered type, a
  number column holds numbers; a cell of either may be missing (\<open>None\<close>, pandas'
  NaN). The grouping column is looked up among the label columns, the weight column
  among the number columns. Looking up an absent name raises \<^verbatim>\<open>KeyError\<close>.
  The pandas operations that the builder calls are modelled with the defaults the source
  leaves in place, on columns of plain (not categorical) dtype.
\<close>

datatype error = KeyError string | ValueError string

record 'k dataframe =
  label_columns :: "string \<rightharpoonup> 'k option list"
  number_columns :: "string \<rightharpoonup> rat option list"

definition getitem :: "(string \<rightharpoonup> 'a) \<Rightarrow> string \<Rightarrow> error + 'a" where
  "getitem cols name = (case cols name of None \<Rightarrow> Inl (KeyError name) | Some col \<Rightarrow> Inr col)"

fun dropna :: "'a option list \<Rightarrow> 'a list" where
  "dropna [] = []"
| "dropna (None # cs) = dropna cs"
| "dropna (Some v # cs) = v # dropna cs"

text \<open>The distinct values of a list in the order of their first appearance.\<close>

fun unique_from :: "'a list \<Rightarrow> 'a list \<Rightarrow> 'a list" where
  "unique_from seen [] = []"
| "unique_from seen (v # vs) =
     (if v \<in> set seen then unique_from seen vs else v # unique_from (v # seen) vs)"

definition unique :: "'a list \<Rightarrow> 'a list" where
  "unique vs = unique_from [] vs"

text \<open>\<^verbatim>\<open>sort_values(ascending=False)\<close> and \<^verbatim>\<open>sort_index()\<close> of a Series.\<close>

definition sort_values_desc :: "('k, rat) series \<Rightarrow> ('k, rat) series" where
  "sort_values_desc x = sort_key (\<lambda>(k, c). - c) x"

definition sort_index :: "('k::linorder, 'v) series \<Rightarrow> ('k, 'v) series" where
  "sort_index x = sort_key fst x"

text \<open>
  \<^verbatim>\<open>Series.value_counts(sort=...)\<close> with its defaults: missing cells are dropped, each
  distinct value is counted, in the order of first appearance; with \<open>sort'\<close> set the entries
  are then ordered by count, largest first.
\<close>

definition value_counts :: "bool \<Rightarrow> 'k option list \<Rightarrow> ('k, rat) series" where
  "value_counts sort' col =
     (let vals = dropna col;
          counts = map (\<lambda>k. (k, of_nat (count_list vals k))) (unique vals)
      in if sort' then sort_values_desc counts else counts)"

text \<open>
  \<^verbatim>\<open>data.groupby(group)[weight].sum()\<close> with its defaults: rows with a missing key are
  dropped, the group keys come out sorted, and a missing weight adds nothing.
\<close>

definition groupby_sum :: "'k::linorder option list \<Rightarrow> rat option list \<Rightarrow> ('k, rat) series" where
  "groupby_sum keys weights =
     (let rows = zip keys weights
      in map (\<lambda>k. (k, sum_list (map (\<lambda>(g, w). case w of None \<Rightarrow> 0 | Some v \<Rightarrow> v)
                                  (filter (\<lambda>(g, w). g = Some k) rows))))
           (sort (remdups (dropna keys))))"

subsection \<open>The frequency table builder: \<^verbatim>\<open>calc_counts_and_percentages\<close>\<close>

text \<open>The argument \<^verbatim>\<open>sort\<close> (here \<open>sort'\<close>) is a bool or a string; \<open>weight\<close> is a column name or \<open>None\<close>.\<close>

datatype sort_arg = SortBool bool | SortStr string

record 'k frequency_table =
  column_names :: "string list"
  table_rows :: "('k \<times> rat \<times> string) list"

text \<open>\<^verbatim>\<open>pd.concat([counts.rename(n_label), percent.rename(perc_label)], axis=1)\<close>: the two
  Series have the same index, so the rows pair up in order.\<close>

definition concat_columns ::
  "string \<Rightarrow> ('k, rat) series \<Rightarrow> string \<Rightarrow> ('k, string) series \<Rightarrow> string list \<times> ('k \<times> rat \<times> string) list" where
  "concat_columns n_label counts perc_label percent =
     ([n_label, perc_label], map (\<lambda>((k, c), (k', p)). (k, c, p)) (zip counts percent))"

text \<open>\<^verbatim>\<open>.rename_axis(group).reset_index()\<close>: the index becomes the first column, named
  \<open>group'\<close>; pandas refuses to insert a column whose name is already there.\<close>

definition reset_index ::
  "string \<Rightarrow> string list \<times> ('k \<times> rat \<times> string) list \<Rightarrow> error + 'k frequency_table" where
  "reset_index group' t =
     (if group' \<in> set (fst t) then Inl (ValueError group')
      else Inr \<lparr>column_names = group' # fst t, table_rows = snd t\<rparr>)"

definition calc_counts_and_percentages ::
  "string \<Rightarrow> 'k::linorder dataframe \<Rightarrow> sort_arg \<Rightarrow> string option \<Rightarrow> string \<Rightarrow> string
     \<Rightarrow> error + 'k frequency_table" where
  "calc_counts_and_percentages group' data sort' weight n_label perc_label =
     (let vsort = (sort' = SortBool True);
          counts_or_error =
            (case weight of
               None \<Rightarrow>
                 (case getitem (label_columns data) group' of
                    Inl e \<Rightarrow> Inl e
                  | Inr col \<Rightarrow>
                      (let counts = value_counts vsort col
                       in Inr (if sort' = SortStr ''index'' then sort_index counts else counts)))
             | Some w \<Rightarrow>
                 (case getitem (label_columns data) group' of
                    Inl e \<Rightarrow> Inl e
                  | Inr keys \<Rightarrow>
                      (case getitem (number_columns data) w of
                         Inl e \<Rightarrow> Inl e
                       | Inr weights \<Rightarrow> Inr (groupby_sum keys weights))))
      in case counts_or_error of
           Inl e \<Rightarrow> Inl e
         | Inr counts \<Rightarrow>
             (let percent = counts_to_percentages counts
              in reset_index group' (concat_columns n_label counts perc_label percent)))"

text \<open>The label column and the count column of a frequency table, read off its rows.\<close>

definition labels_of :: "'k frequency_table \<Rightarrow> 'k list" where
  "labels_of ft = map fst (table_rows ft)"

definition counts_of :: "'k frequency_table \<Rightarrow> rat list" where
  "counts_of ft = map (\<lambda>(k, c, p). c) (table_rows ft)"

text \<open>
  The value of the builder's \<^verbatim>\<open>return\<close> expression on a count series, when the name of
  the grouping column is neither of the two other column names.
\<close>

definition table_of :: "string \<Rightarrow> string \<Rightarrow> string \<Rightarrow> ('k, rat) series \<Rightarrow> 'k frequency_table" where
  "table_of group' n_label perc_label counts =
     \<lparr>column_names = [group', n_label, perc_label],
      table_rows = snd (concat_columns n_label counts perc_label (counts_to_percentages counts))\<rparr>"

subsection \<open>Example tables\<close>

text \<open>The five-row table of the specification's scenario, with a weight column added.\<close>

definition scenario_table :: "string dataframe" where
  "scenario_table =
     \<lparr>label_columns = [''g'' \<mapsto> [Some ''a'', Some ''a'', Some ''b'', Some ''b'', Some ''b'']],
      number_columns = [''w'' \<mapsto> [Some 1, Some 1, Some 2, Some 2, Some 2]]\<rparr>"

text \<open>A table with a missing label and a missing weight.\<close>

definition table_with_missing :: "string dataframe" where
  "table_with_missing =
     \<lparr>label_columns =
        [''g'' \<mapsto> [Some ''b'', Some ''a'', Some ''b'', None, Some ''c'', Some ''b'', Some ''a'']],
      number_columns =
        [''w'' \<mapsto> [Some 4, Some 2, Some 4, Some 5, Some 9, Some 4, None]]\<rparr>"

text \<open>A table with no rows.\<close>

definition empty_table :: "string dataframe" where
  "empty_table = \<lparr>label_columns = [''g'' \<mapsto> []], number_columns = [''w'' \<mapsto> []]\<rparr>"

section \<open>Properties of the percentage formatter\<close>

subsection \<open>Auxiliary facts\<close>

text \<open>What \<^verbatim>\<open>.replace("0.0%", "<0.1%")\<close> does to one value.\<close>

definition fix_zero :: "string \<Rightarrow> string" where
  "fix_zero v = (if v = ''0.0%'' then ''<0.1%'' else v)"

lemma zip_index_map:
  "zip (map fst x) (map g x) = map (\<lambda>p. (fst p, g p)) x"
  by (induction x) auto

text \<open>The formatter, entry by entry.\<close>

lemma counts_to_percentages_map:
  "counts_to_percentages x =
     map (\<lambda>(k, c). (k, fix_zero (format_percentage (times100 (truediv c (series_sum x)))))) x"
  unfolding counts_to_percentages_def series_replace_def raw_percentages_def index_def
      values_of_def fix_zero_def Let_def
  by (simp add: split_def zip_index_map comp_def)

lemma fix_zero_neq: "fix_zero v \<noteq> ''0.0%''" "''0.0%'' \<noteq> fix_zero v"
  by (simp_all add: fix_zero_def)






text \<open>The rounding is to a nearest integer: the number of tenths that \<open>format_1f_rat\<close>
  writes is within half a tenth of the percentage.\<close>

lemma round_half_even_close: "\<bar>of_int (round_half_even q) - q\<bar> \<le> 1 / 2"
proof -
  have "of_int \<lfloor>q\<rfloor> \<le> q" "q < of_int \<lfloor>q\<rfloor> + 1" by linarith+
  then show ?thesis
    by (auto simp: round_half_even_def Let_def abs_le_iff)
qed





subsection \<open>The formatting rules\<close>



subsection \<open>The raw percentages\<close>



subsection \<open>The string \<open>0.0%\<close> never comes out\<close>

text \<open>
  C6. Whatever the count series, no value of the formatter's output is the string
  \<open>0.0%\<close>: the output is the formatted series after the replacement of \<open>0.0%\<close> by
  \<open><0.1%\<close>, which leaves no \<open>0.0%\<close> behind.
\<close>

theorem counts_to_percentages_never_zero_point_zero:
  "''0.0%'' \<notin> set (values_of (counts_to_percentages x)) \<and>
   counts_to_percentages x =
     series_replace ''0.0%'' ''<0.1%'' (zip (index x) (map format_percentage (raw_percentages x)))"
  by (auto simp: counts_to_percentages_map values_of_def fix_zero_neq
      counts_to_percentages_def [symmetric])

theorem counts_to_percentages_never_zero_point_zero_witness:
  "''0.0%'' \<notin> set (values_of (counts_to_percentages [(''a'', 1 :: rat), (''b'', 0), (''c'', 10000)]))"
  using counts_to_percentages_never_zero_point_zero [of "[(''a'', 1), (''b'', 0), (''c'', 10000)]"]
  by blast

subsection \<open>Zero counts\<close>

text \<open>
  C7, as the code has it. When the total of the series is not zero, every entry whose
  count is 0 is written \<open>0%\<close>. (When the total is zero the quotient \<open>0 / 0\<close> is not a
  number, no comparison holds for it, and the entry is written \<open>nan%\<close>.)
\<close>

theorem zero_count_formats_as_zero_percent:
  assumes "series_sum x \<noteq> 0" and "i < length x" and "snd (x ! i) = 0"
  shows "counts_to_percentages x ! i = (fst (x ! i), ''0%'')"
  using assms
  by (simp add: counts_to_percentages_map truediv_def format_percentage_def fix_zero_def
      split_def)

theorem zero_count_formats_as_zero_percent_witness:
  "counts_to_percentages [(''a'', 0), (''b'', 5)] ! 0 = (''a'', ''0%'')"
proof -
  let ?x = "[(''a'', 0), (''b'', 5)] :: (string, rat) series"
  have h: "series_sum ?x \<noteq> 0" "0 < length ?x" "snd (?x ! 0) = 0"
    by (simp_all add: series_sum_def values_of_def)
  show ?thesis using zero_count_formats_as_zero_percent [OF h] by simp
qed

text \<open>The claim as worded, for every total, fails on the series with the single count 0.\<close>

theorem zero_count_zero_total_counterexample:
  "snd ([(''a'', 0 :: rat)] ! 0) = 0 \<and>
   counts_to_percentages [(''a'', 0)] ! 0 = (''a'', ''nan%'') \<and>
   counts_to_percentages [(''a'', 0)] ! 0 \<noteq> (''a'', ''0%'')"
  by (simp add: counts_to_percentages_map series_sum_def values_of_def truediv_def
      format_percentage_def fix_zero_def)

subsection \<open>The index is kept\<close>

text \<open>
  C8. The output of the formatter has the index of its input: the same labels, in the
  same order, one output entry for each input entry.
\<close>

theorem counts_to_percentages_keeps_index:
  "index (counts_to_percentages x) = index x \<and> length (counts_to_percentages x) = length x"
  by (simp add: counts_to_percentages_map index_def split_def comp_def)

theorem counts_to_percentages_keeps_index_witness:
  "index (counts_to_percentages [(''b'', 2), (''a'', 1), (''c'', 0)]) = [''b'', ''a'', ''c'']"
  using counts_to_percentages_keeps_index [of "[(''b'', 2), (''a'', 1), (''c'', 0)]"]
  by (simp add: index_def)

section \<open>Properties of the frequency table builder\<close>

subsection \<open>Auxiliary facts\<close>

lemma set_dropna: "set (dropna col) = {v. Some v \<in> set col}"
  by (induction col rule: dropna.induct) auto

lemma set_unique_from: "set (unique_from seen vs) = set vs - set seen"
  by (induction seen vs rule: unique_from.induct) auto

lemma distinct_unique_from: "distinct (unique_from seen vs)"
  by (induction seen vs rule: unique_from.induct) (auto simp: set_unique_from)

lemma set_unique: "set (unique vs) = set vs"
  by (simp add: unique_def set_unique_from)

lemma distinct_unique: "distinct (unique vs)"
  by (simp add: unique_def distinct_unique_from)

lemma distinct_map_fst_sort_key:
  "distinct (map fst (sort_key f x)) = distinct (map fst x)"
  by (metis distinct_map distinct_sort set_sort)

lemma index_value_counts:
  "distinct (index (value_counts b col))" "set (index (value_counts b col)) = {v. Some v \<in> set col}"
  by (simp_all add: value_counts_def index_def Let_def sort_values_desc_def comp_def
      distinct_map_fst_sort_key distinct_unique set_unique set_dropna image_image)

lemma index_sort_index:
  "sorted (index (sort_index x))" "set (index (sort_index x)) = set (index x)"
  "distinct (index (sort_index x)) = distinct (index x)"
  by (simp_all add: sort_index_def index_def distinct_map_fst_sort_key)

lemma index_groupby_sum: "index (groupby_sum keys weights) = sort (remdups (dropna keys))"
  by (simp add: groupby_sum_def index_def Let_def comp_def)

lemma sorted_desc_iff: "sorted (map uminus xs) \<longleftrightarrow> sorted_wrt (\<ge>) (xs :: rat list)"
  by (simp add: sorted_wrt_map)

lemma values_sort_values_desc: "sorted_wrt (\<ge>) (values_of (sort_values_desc x))"
proof -
  have "sorted (map (\<lambda>(k, c). - c) (sort_key (\<lambda>(k, c). - c) x))"
    by (rule sorted_sort_key)
  then have "sorted (map uminus (values_of (sort_values_desc x)))"
    by (simp add: values_of_def sort_values_desc_def comp_def split_def)
  then show ?thesis by (simp only: sorted_desc_iff)
qed

text \<open>The rows of the table that the builder assembles from a count series.\<close>

lemma concat_columns_rows:
  "snd (concat_columns n_label counts perc_label (counts_to_percentages counts)) =
     map (\<lambda>(k, c). (k, c, fix_zero (format_percentage (times100 (truediv c (series_sum counts))))))
       counts"
proof -
  have "map (\<lambda>((k, c), (k', p)). (k, c, p)) (zip xs (map (\<lambda>(k, c). (k, f c)) xs)) =
        map (\<lambda>(k, c). (k, c, f c)) xs" for f :: "rat \<Rightarrow> string" and xs :: "('a \<times> rat) list"
    by (induction xs) auto
  then show ?thesis
    by (simp add: concat_columns_def counts_to_percentages_map)
qed

lemma reset_index_ok:
  assumes "group' \<noteq> n_label" and "group' \<noteq> perc_label"
  shows "reset_index group' (concat_columns n_label counts perc_label percent) =
     Inr \<lparr>column_names = [group', n_label, perc_label],
          table_rows = snd (concat_columns n_label counts perc_label percent)\<rparr>"
  using assms by (simp add: reset_index_def concat_columns_def)

lemma labels_of_table_of: "labels_of (table_of g n p counts) = index counts"
  by (simp add: table_of_def labels_of_def concat_columns_rows index_def comp_def split_def)

lemma counts_of_table_of: "counts_of (table_of g n p counts) = values_of counts"
  by (simp add: table_of_def counts_of_def concat_columns_rows values_of_def comp_def split_def)

lemma length_table_of: "length (table_rows (table_of g n p counts)) = length counts"
  by (simp add: table_of_def concat_columns_rows)

lemma calc_unweighted:
  assumes "label_columns data g = Some col" and "g \<noteq> n" and "g \<noteq> p"
  shows "calc_counts_and_percentages g data s None n p =
     Inr (table_of g n p
       (if s = SortStr ''index'' then sort_index (value_counts (s = SortBool True) col)
        else value_counts (s = SortBool True) col))"
  using assms
  by (simp add: calc_counts_and_percentages_def getitem_def Let_def reset_index_ok table_of_def)

lemma calc_weighted:
  assumes "label_columns data g = Some col" and "number_columns data w = Some ws"
    and "g \<noteq> n" and "g \<noteq> p"
  shows "calc_counts_and_percentages g data s (Some w) n p =
     Inr (table_of g n p (groupby_sum col ws))"
  using assms
  by (simp add: calc_counts_and_percentages_def getitem_def Let_def reset_index_ok table_of_def)


lemma sum_list_map_insort_key:
  "sum_list (map g (insort_key f a xs)) = g a + sum_list (map g xs)" for g :: "'a \<Rightarrow> rat"
  by (induction xs) simp_all

lemma sum_list_map_sort_key:
  "sum_list (map g (sort_key f xs)) = sum_list (map g xs)" for g :: "'a \<Rightarrow> rat"
  by (induction xs) (simp_all add: sum_list_map_insort_key)

lemma series_sum_sorted:
  "series_sum (sort_values_desc x) = series_sum x" "series_sum (sort_index y) = series_sum y"
  by (simp_all add: series_sum_def values_of_def sort_values_desc_def sort_index_def
      sum_list_map_sort_key)

lemma set_rows_table_of_sorted:
  "set (table_rows (table_of g n p (sort_values_desc x))) = set (table_rows (table_of g n p x))"
  "set (table_rows (table_of g n p (sort_index y))) = set (table_rows (table_of g n p y))"
  by (simp_all add: table_of_def concat_columns_rows series_sum_sorted)
    (simp_all add: sort_values_desc_def sort_index_def)


subsection \<open>Row order\<close>

text \<open>
  C3. Let the grouping column be in the table (and its name differ from the two other
  column names, so that the table is assembled). Without a weight, \<^verbatim>\<open>sort=True\<close> gives
  the rows of the unsorted table ordered by count, largest first, and \<^verbatim>\<open>sort="index"\<close>
  gives them ordered by label, ascending. With a weight column the result for
  \<^verbatim>\<open>sort=True\<close> is the result for \<^verbatim>\<open>sort=False\<close>: no sort by count is applied, and the
  rows follow the order of the grouping, which is that of the sorted distinct labels.
\<close>

theorem builder_sort_orders:
  assumes col: "label_columns data g = Some col" and names: "g \<noteq> n" "g \<noteq> p"
  shows "(\<exists>ft ft'. calc_counts_and_percentages g data (SortBool True) None n p = Inr ft \<and>
            calc_counts_and_percentages g data (SortBool False) None n p = Inr ft' \<and>
            set (table_rows ft) = set (table_rows ft') \<and>
            sorted_wrt (\<ge>) (counts_of ft)) \<and>
         (\<exists>ft ft'. calc_counts_and_percentages g data (SortStr ''index'') None n p = Inr ft \<and>
            calc_counts_and_percentages g data (SortBool False) None n p = Inr ft' \<and>
            set (table_rows ft) = set (table_rows ft') \<and>
            sorted (labels_of ft)) \<and>
         (\<forall>w ws. number_columns data w = Some ws \<longrightarrow>
            (\<exists>ft. calc_counts_and_percentages g data (SortBool True) (Some w) n p = Inr ft \<and>
               calc_counts_and_percentages g data (SortBool False) (Some w) n p = Inr ft \<and>
               labels_of ft = sort (remdups (dropna col))))"
proof (intro conjI allI impI)
  show "\<exists>ft ft'. calc_counts_and_percentages g data (SortBool True) None n p = Inr ft \<and>
            calc_counts_and_percentages g data (SortBool False) None n p = Inr ft' \<and>
            set (table_rows ft) = set (table_rows ft') \<and>
            sorted_wrt (\<ge>) (counts_of ft)"
    unfolding calc_unweighted [OF col names]
    by (simp add: counts_of_table_of value_counts_def Let_def values_sort_values_desc
        set_rows_table_of_sorted)
  show "\<exists>ft ft'. calc_counts_and_percentages g data (SortStr ''index'') None n p = Inr ft \<and>
            calc_counts_and_percentages g data (SortBool False) None n p = Inr ft' \<and>
            set (table_rows ft) = set (table_rows ft') \<and>
            sorted (labels_of ft)"
    unfolding calc_unweighted [OF col names]
    by (simp add: labels_of_table_of index_sort_index set_rows_table_of_sorted)
next
  fix w ws assume "number_columns data w = Some ws"
  from calc_weighted [OF col this names]
  show "\<exists>ft. calc_counts_and_percentages g data (SortBool True) (Some w) n p = Inr ft \<and>
               calc_counts_and_percentages g data (SortBool False) (Some w) n p = Inr ft \<and>
               labels_of ft = sort (remdups (dropna col))"
    by (simp add: labels_of_table_of index_groupby_sum)
qed

theorem builder_sort_orders_witness:
  "calc_counts_and_percentages ''g'' scenario_table (SortBool True) None ''n'' ''percent'' =
     Inr \<lparr>column_names = [''g'', ''n'', ''percent''],
          table_rows = [(''b'', 3, ''60.0%''), (''a'', 2, ''40.0%'')]\<rparr> \<and>
   sorted_wrt (\<ge>) [3, 2 :: rat] \<and>
   calc_counts_and_percentages ''g'' scenario_table (SortStr ''index'') None ''n'' ''percent'' =
     Inr \<lparr>column_names = [''g'', ''n'', ''percent''],
          table_rows = [(''a'', 2, ''40.0%''), (''b'', 3, ''60.0%'')]\<rparr> \<and>
   sorted [''a'', ''b''] \<and>
   calc_counts_and_percentages ''g'' scenario_table (SortBool True) (Some ''w'') ''n'' ''percent'' =
     Inr \<lparr>column_names = [''g'', ''n'', ''percent''],
          table_rows = [(''a'', 2, ''25.0%''), (''b'', 6, ''75.0%'')]\<rparr> \<and>
   \<not> sorted_wrt (\<ge>) [2, 6 :: rat]"
proof -
  have h: "label_columns scenario_table ''g'' =
             Some [Some ''a'', Some ''a'', Some ''b'', Some ''b'', Some ''b'']"
      "''g'' \<noteq> ''n''" "''g'' \<noteq> ''percent''"
    and w: "number_columns scenario_table ''w'' = Some [Some 1, Some 1, Some 2, Some 2, Some 2]"
    by (simp_all add: scenario_table_def)
  have v1: "calc_counts_and_percentages ''g'' scenario_table (SortBool True) None ''n'' ''percent'' =
     Inr \<lparr>column_names = [''g'', ''n'', ''percent''],
          table_rows = [(''b'', 3, ''60.0%''), (''a'', 2, ''40.0%'')]\<rparr>"
    by code_simp
  have v2: "calc_counts_and_percentages ''g'' scenario_table (SortStr ''index'') None ''n'' ''percent'' =
     Inr \<lparr>column_names = [''g'', ''n'', ''percent''],
          table_rows = [(''a'', 2, ''40.0%''), (''b'', 3, ''60.0%'')]\<rparr>"
    by code_simp
  have v3: "calc_counts_and_percentages ''g'' scenario_table (SortBool True) (Some ''w'') ''n'' ''percent'' =
     Inr \<lparr>column_names = [''g'', ''n'', ''percent''],
          table_rows = [(''a'', 2, ''25.0%''), (''b'', 6, ''75.0%'')]\<rparr>"
    by code_simp
  from builder_sort_orders [OF h] w
  have "sorted_wrt (\<ge>) [3, 2 :: rat]" and "sorted [''a'', ''b'']"
    unfolding v1 v2 by (auto simp: counts_of_def labels_of_def)
  with v1 v2 v3 show ?thesis by simp
qed

subsection \<open>The weighted path and the sort argument\<close>

text \<open>
  C10. With a weight column the argument \<^verbatim>\<open>sort\<close> has no effect on the result, whatever its
  value (\<^verbatim>\<open>"index"\<close> included): the result is the same for any two values of it. When a
  table is returned, its labels are in ascending order, each once.
\<close>

theorem builder_weighted_ignores_sort:
  "calc_counts_and_percentages g data s (Some w) n p =
     calc_counts_and_percentages g data s' (Some w) n p \<and>
   (\<forall>ft. calc_counts_and_percentages g data s (Some w) n p = Inr ft \<longrightarrow>
      sorted (labels_of ft) \<and> distinct (labels_of ft))"
proof
  show "calc_counts_and_percentages g data s (Some w) n p =
     calc_counts_and_percentages g data s' (Some w) n p"
    by (simp add: calc_counts_and_percentages_def Let_def)
  show "\<forall>ft. calc_counts_and_percentages g data s (Some w) n p = Inr ft \<longrightarrow>
      sorted (labels_of ft) \<and> distinct (labels_of ft)"
  proof (intro allI impI)
    fix ft assume r: "calc_counts_and_percentages g data s (Some w) n p = Inr ft"
    then obtain col ws where c: "label_columns data g = Some col" "number_columns data w = Some ws"
      by (auto simp: calc_counts_and_percentages_def getitem_def Let_def split: option.splits)
    from r c have "g \<noteq> n" "g \<noteq> p"
      by (auto simp: calc_counts_and_percentages_def getitem_def Let_def reset_index_def
          concat_columns_def)
    from calc_weighted [OF c this] r have "ft = table_of g n p (groupby_sum col ws)" by simp
    then show "sorted (labels_of ft) \<and> distinct (labels_of ft)"
      by (simp add: labels_of_table_of index_groupby_sum)
  qed
qed

theorem builder_weighted_ignores_sort_witness:
  "calc_counts_and_percentages ''g'' table_with_missing (SortStr ''index'') (Some ''w'') ''n'' ''percent'' =
     Inr \<lparr>column_names = [''g'', ''n'', ''percent''],
          table_rows = [(''a'', 2, ''8.7%''), (''b'', 12, ''52.2%''), (''c'', 9, ''39.1%'')]\<rparr> \<and>
   calc_counts_and_percentages ''g'' table_with_missing (SortBool True) (Some ''w'') ''n'' ''percent'' =
     Inr \<lparr>column_names = [''g'', ''n'', ''percent''],
          table_rows = [(''a'', 2, ''8.7%''), (''b'', 12, ''52.2%''), (''c'', 9, ''39.1%'')]\<rparr> \<and>
   sorted [''a'', ''b'', ''c''] \<and> distinct [''a'', ''b'', ''c'']"
proof -
  have v: "calc_counts_and_percentages ''g'' table_with_missing (SortStr ''index'') (Some ''w'')
       ''n'' ''percent'' =
     Inr \<lparr>column_names = [''g'', ''n'', ''percent''],
          table_rows = [(''a'', 2, ''8.7%''), (''b'', 12, ''52.2%''), (''c'', 9, ''39.1%'')]\<rparr>"
    by code_simp
  from builder_weighted_ignores_sort
    [of "''g''" table_with_missing "SortStr ''index''" "''w''" "''n''" "''percent''" "SortBool True"]
  have "calc_counts_and_percentages ''g'' table_with_missing (SortBool True) (Some ''w'')
       ''n'' ''percent'' =
     Inr \<lparr>column_names = [''g'', ''n'', ''percent''],
          table_rows = [(''a'', 2, ''8.7%''), (''b'', 12, ''52.2%''), (''c'', 9, ''39.1%'')]\<rparr>"
    and "sorted [''a'', ''b'', ''c''] \<and> distinct [''a'', ''b'', ''c'']"
    unfolding v by (auto simp: labels_of_def)
  with v show ?thesis by simp
qed

subsection \<open>Missing columns\<close>

text \<open>
  C5. When the grouping column is not in the table, the builder fails with the
  \<^verbatim>\<open>KeyError\<close> of that name; when the grouping column is there and the weight column that
  was asked for is not, it fails with the \<^verbatim>\<open>KeyError\<close> of the weight's name. In both cases
  the error is the result of the call: no table is returned.
\<close>

theorem builder_missing_column:
  "(g \<notin> dom (label_columns data) \<longrightarrow>
      calc_counts_and_percentages g data s weight n p = Inl (KeyError g)) \<and>
   (g \<in> dom (label_columns data) \<and> weight = Some w \<and> w \<notin> dom (number_columns data) \<longrightarrow>
      calc_counts_and_percentages g data s weight n p = Inl (KeyError w))"
  by (auto simp: calc_counts_and_percentages_def getitem_def Let_def domIff split: option.splits)

theorem builder_missing_column_witness:
  "calc_counts_and_percentages ''h'' scenario_table (SortBool True) None ''n'' ''percent'' =
     Inl (KeyError ''h'') \<and>
   calc_counts_and_percentages ''g'' scenario_table (SortBool True) (Some ''v'') ''n'' ''percent'' =
     Inl (KeyError ''v'')"
proof -
  have h: "''h'' \<notin> dom (label_columns scenario_table)"
    and g: "''g'' \<in> dom (label_columns scenario_table)"
    and v: "''v'' \<notin> dom (number_columns scenario_table)"
    by (simp_all add: scenario_table_def)
  show ?thesis
    using builder_missing_column [of "''h''" scenario_table "SortBool True" None "''n''" "''percent''"]
      builder_missing_column [of "''g''" scenario_table "SortBool True" "Some ''v''" "''n''"
        "''percent''" "''v''"] h g v
    by blast
qed

subsection \<open>The empty table\<close>

text \<open>
  C4. On a table with no rows (the grouping column, and the weight column when one is
  asked for, are there and empty) the builder returns the table with its three column
  names and no row. The formatter maps the empty count series to the empty series, and
  there are no raw percentages: no quotient is formed.
\<close>

theorem builder_empty_table:
  assumes "label_columns data g = Some []"
    and "case weight of None \<Rightarrow> True | Some w \<Rightarrow> number_columns data w = Some []"
    and "g \<noteq> n" and "g \<noteq> p"
  shows "calc_counts_and_percentages g data s weight n p =
           Inr \<lparr>column_names = [g, n, p], table_rows = []\<rparr> \<and>
         counts_to_percentages ([] :: ('k::linorder, rat) series) = [] \<and>
         raw_percentages ([] :: ('k, rat) series) = []"
  using assms
  by (auto simp: calc_counts_and_percentages_def getitem_def Let_def reset_index_def
      concat_columns_def value_counts_def unique_def sort_values_desc_def sort_index_def
      groupby_sum_def counts_to_percentages_map raw_percentages_def values_of_def
      split: option.splits)

theorem builder_empty_table_witness:
  "calc_counts_and_percentages ''g'' empty_table (SortBool True) None ''n'' ''percent'' =
     Inr \<lparr>column_names = [''g'', ''n'', ''percent''], table_rows = []\<rparr> \<and>
   calc_counts_and_percentages ''g'' empty_table (SortBool True) (Some ''w'') ''n'' ''percent'' =
     Inr \<lparr>column_names = [''g'', ''n'', ''percent''], table_rows = []\<rparr>"
proof -
  have h: "label_columns empty_table ''g'' = Some []"
      "case None :: string option of None \<Rightarrow> True
       | Some w \<Rightarrow> number_columns empty_table w = Some []"
      "case Some ''w'' of None \<Rightarrow> True | Some w \<Rightarrow> number_columns empty_table w = Some []"
      "''g'' \<noteq> ''n''" "''g'' \<noteq> ''percent''"
    by (simp_all add: empty_table_def)
  show ?thesis
    using builder_empty_table [OF h(1,2,4,5), of "SortBool True"]
      builder_empty_table [OF h(1,3,4,5), of "SortBool True"] by blast
qed

subsection \<open>One row for each value\<close>

text \<open>
  C9. When the columns asked for are in the table (and the table is assembled), the
  frequency table has exactly one row for each distinct value observed in the grouping
  column, a missing cell not being a value: the labels of its rows are pairwise
  different, they are the values of the column, and the number of rows is the number
  of distinct values.
\<close>

theorem builder_one_row_per_value:
  assumes col: "label_columns data g = Some col"
    and w: "case weight of None \<Rightarrow> True | Some w \<Rightarrow> w \<in> dom (number_columns data)"
    and names: "g \<noteq> n" "g \<noteq> p"
  shows "\<exists>ft. calc_counts_and_percentages g data s weight n p = Inr ft \<and>
           distinct (labels_of ft) \<and>
           set (labels_of ft) = {v. Some v \<in> set col} \<and>
           length (table_rows ft) = card {v. Some v \<in> set col}"
proof (cases weight)
  case None
  let ?c = "if s = SortStr ''index'' then sort_index (value_counts (s = SortBool True) col)
        else value_counts (s = SortBool True) col"
  have d: "distinct (index ?c)" and st: "set (index ?c) = {v. Some v \<in> set col}"
    by (simp_all add: index_sort_index index_value_counts)
  have "length ?c = length (index ?c)" by (simp add: index_def)
  also have "\<dots> = card {v. Some v \<in> set col}" using distinct_card [OF d] st by simp
  finally show ?thesis
    using d st unfolding None calc_unweighted [OF col names]
    by (simp add: labels_of_table_of length_table_of)
next
  case (Some w')
  with w obtain ws where ws: "number_columns data w' = Some ws" by auto
  let ?c = "groupby_sum col ws"
  have d: "distinct (index ?c)" and st: "set (index ?c) = {v. Some v \<in> set col}"
    by (simp_all add: index_groupby_sum set_dropna)
  have "length ?c = length (index ?c)" by (simp add: index_def)
  also have "\<dots> = card {v. Some v \<in> set col}" using distinct_card [OF d] st by simp
  finally show ?thesis
    using d st unfolding Some calc_weighted [OF col ws names]
    by (simp add: labels_of_table_of length_table_of)
qed

theorem builder_one_row_per_value_witness:
  "calc_counts_and_percentages ''g'' table_with_missing (SortBool True) None ''n'' ''percent'' =
     Inr \<lparr>column_names = [''g'', ''n'', ''percent''],
          table_rows = [(''b'', 3, ''50.0%''), (''a'', 2, ''33.3%''), (''c'', 1, ''16.7%'')]\<rparr> \<and>
   distinct [''b'', ''a'', ''c''] \<and>
   set [''b'', ''a'', ''c''] =
     {v. Some v \<in> set [Some ''b'', Some ''a'', Some ''b'', None, Some ''c'', Some ''b'', Some ''a'']} \<and>
   length [(''b'', 3 :: rat, ''50.0%''), (''a'', 2, ''33.3%''), (''c'', 1, ''16.7%'')] =
     card {v. Some v \<in> set [Some ''b'', Some ''a'', Some ''b'', None, Some ''c'', Some ''b'', Some ''a'']}"
proof -
  have h: "label_columns table_with_missing ''g'' =
        Some [Some ''b'', Some ''a'', Some ''b'', None, Some ''c'', Some ''b'', Some ''a'']"
      "case None :: string option of None \<Rightarrow> True
       | Some w \<Rightarrow> w \<in> dom (number_columns table_with_missing)"
      "''g'' \<noteq> ''n''" "''g'' \<noteq> ''percent''"
    by (simp_all add: table_with_missing_def)
  have v: "calc_counts_and_percentages ''g'' table_with_missing (SortBool True) None ''n'' ''percent'' =
     Inr \<lparr>column_names = [''g'', ''n'', ''percent''],
          table_rows = [(''b'', 3, ''50.0%''), (''a'', 2, ''33.3%''), (''c'', 1, ''16.7%'')]\<rparr>"
    by code_simp
  from builder_one_row_per_value [OF h, of "SortBool True"] show ?thesis
    unfolding v by (simp add: labels_of_def)
qed

end
